theory Spec2Isabelle
  imports Complex_Main
begin

section \<open>Bookmark manager: data model\<close>

text \<open>
  The services of the bookmark manager (import/export, organizer, link checker, cloud
  sync stub) are embedded as HOL functions. A JavaScript string is the list of its code
  units, written as a HOL \<open>string\<close>; \<open>undefined\<close> is \<open>None\<close>. What the
  browser provides (lower-casing, the \<open>URL\<close> and \<open>RegExp\<close> constructors, the JSON
  codec, the clock, the network) is a parameter of the functions that call it.
  Messages that the source writes in Chinese are constructors of a datatype.
\<close>

subsection \<open>Strings\<close>

fun startsWith :: "string \<Rightarrow> string \<Rightarrow> bool" where
  "startsWith s [] = True"
| "startsWith [] (c # p) = False"
| "startsWith (d # s) (c # p) = (d = c \<and> startsWith s p)"

text \<open>\<open>String.prototype.includes\<close>: the argument occurs as a contiguous run.\<close>

fun str_includes :: "string \<Rightarrow> string \<Rightarrow> bool" where
  "str_includes [] p = (p = [])"
| "str_includes (c # s) p = (startsWith (c # s) p \<or> str_includes s p)"

text \<open>An optional string is truthy when it is present and not empty.\<close>

fun truthy :: "string option \<Rightarrow> bool" where
  "truthy None = False"
| "truthy (Some s) = (s \<noteq> [])"

text \<open>\<open>url || ''\<close>\<close>

fun or_empty :: "string option \<Rightarrow> string" where
  "or_empty None = []"
| "or_empty (Some s) = s"

subsection \<open>The platform\<close>

text \<open>
  \<open>toLowerCase\<close> is \<open>String.prototype.toLowerCase\<close>. \<open>URL_href u\<close> is the
  serialisation of \<open>new URL(u)\<close> after its fragment has been cleared, \<open>None\<close> when
  the constructor throws. \<open>RegExp_test p u\<close> is \<open>new RegExp(p).test(u)\<close>, \<open>None\<close>
  when the constructor throws.
\<close>

record platform =
  toLowerCase :: "string \<Rightarrow> string"
  URL_href :: "string \<Rightarrow> string option"
  RegExp_test :: "string \<Rightarrow> string \<Rightarrow> bool option"

subsection \<open>Bookmark nodes and category rules\<close>

datatype node_status = SNormal | SBroken | SRedirect | SChecking | STimeout | SError

text \<open>
  \<open>BookmarkNode\<close> of \<open>types/index.ts\<close>, with the fields that the functions below
  read or write. The remaining optional fields (dates, tags, notes, counters, metadata)
  are copied by the object spreads and never inspected.
\<close>

datatype BookmarkNode =
  BookmarkNode
    (node_id: string)
    (node_title: string)
    (node_url: "string option")
    (node_children: "BookmarkNode list option")
    (node_parentId: "string option")
    (node_status: "node_status option")

record CategoryRule =
  rule_id :: string
  rule_name :: string
  rule_keywords :: "string list"
  urlPatterns :: "string list option"
  targetFolder :: string

section \<open>Organizer: categorization\<close>

text \<open>\<open>matchesRule\<close>: the keyword test, then the pattern test; a pattern that does
  not compile counts as no match.\<close>

definition matchesKeyword :: "platform \<Rightarrow> BookmarkNode \<Rightarrow> string \<Rightarrow> bool" where
  "matchesKeyword P bookmark keyword =
     (str_includes (toLowerCase P (node_title bookmark)) (toLowerCase P keyword) \<or>
      str_includes (toLowerCase P (or_empty (node_url bookmark))) (toLowerCase P keyword))"

definition matchesPattern :: "platform \<Rightarrow> string \<Rightarrow> string \<Rightarrow> bool" where
  "matchesPattern P u pattern =
     (case RegExp_test P pattern u of None \<Rightarrow> False | Some b \<Rightarrow> b)"

definition matchesRule :: "platform \<Rightarrow> BookmarkNode \<Rightarrow> CategoryRule \<Rightarrow> bool" where
  "matchesRule P bookmark rule =
     (if rule_keywords rule \<noteq> [] \<and> list_ex (matchesKeyword P bookmark) (rule_keywords rule) then True
      else if (case urlPatterns rule of
                 None \<Rightarrow> False
               | Some ps \<Rightarrow> ps \<noteq> [] \<and> truthy (node_url bookmark) \<and>
                   list_ex (matchesPattern P (or_empty (node_url bookmark))) ps)
      then True
      else False)"

text \<open>The result of \<open>categorizeBookmarks\<close> is a \<open>Map\<close> from folder names to the
  bookmarks pushed under them.\<close>

type_synonym categorized = "string \<rightharpoonup> BookmarkNode list"

definition push_to :: "categorized \<Rightarrow> string \<Rightarrow> BookmarkNode \<Rightarrow> categorized" where
  "push_to m folder n =
     (let m1 = (case m folder of None \<Rightarrow> m(folder \<mapsto> []) | Some _ \<Rightarrow> m)
      in m1(folder \<mapsto> (case m1 folder of None \<Rightarrow> [] | Some ns \<Rightarrow> ns) @ [n]))"

text \<open>The \<open>for (const rule of rules)\<close> loop with its \<open>break\<close>.\<close>

fun applyRules :: "platform \<Rightarrow> CategoryRule list \<Rightarrow> BookmarkNode \<Rightarrow> categorized \<Rightarrow> categorized" where
  "applyRules P [] n m = m"
| "applyRules P (rule # rules) n m =
     (if matchesRule P n rule then push_to m (targetFolder rule) n
      else applyRules P rules n m)"

fun categorizeNode :: "platform \<Rightarrow> CategoryRule list \<Rightarrow> BookmarkNode \<Rightarrow> categorized \<Rightarrow> categorized"
  and categorizeForEach :: "platform \<Rightarrow> CategoryRule list \<Rightarrow> BookmarkNode list \<Rightarrow> categorized \<Rightarrow> categorized" where
  "categorizeNode P rules (BookmarkNode i t u cs p s) m =
     (if \<not> truthy u then
        (case cs of None \<Rightarrow> m | Some xs \<Rightarrow> categorizeForEach P rules xs m)
      else
        (let m1 = applyRules P rules (BookmarkNode i t u cs p s) m
         in case cs of None \<Rightarrow> m1 | Some xs \<Rightarrow> categorizeForEach P rules xs m1))"
| "categorizeForEach P rules [] m = m"
| "categorizeForEach P rules (x # xs) m =
     categorizeForEach P rules xs (categorizeNode P rules x m)"

definition categorizeBookmarks :: "platform \<Rightarrow> BookmarkNode list \<Rightarrow> CategoryRule list \<Rightarrow> categorized" where
  "categorizeBookmarks P bookmarks rules = categorizeForEach P rules bookmarks Map.empty"

text \<open>Every node of a forest, in the order the traversals visit them.\<close>

fun nodes_of :: "BookmarkNode \<Rightarrow> BookmarkNode list"
  and nodes_of_list :: "BookmarkNode list \<Rightarrow> BookmarkNode list" where
  "nodes_of (BookmarkNode i t u cs p s) =
     BookmarkNode i t u cs p s # (case cs of None \<Rightarrow> [] | Some xs \<Rightarrow> nodes_of_list xs)"
| "nodes_of_list [] = []"
| "nodes_of_list (x # xs) = nodes_of x @ nodes_of_list xs"

text \<open>The spec's words for a match: some keyword appears case-insensitively in the
  title or the URL, or some pattern matches the URL.\<close>

definition rule_matches :: "platform \<Rightarrow> BookmarkNode \<Rightarrow> CategoryRule \<Rightarrow> bool" where
  "rule_matches P b r =
     ((\<exists>k. k \<in> set (rule_keywords r) \<and>
          (str_includes (toLowerCase P (node_title b)) (toLowerCase P k) \<or>
           str_includes (toLowerCase P (or_empty (node_url b))) (toLowerCase P k))) \<or>
      (\<exists>u ps pat. node_url b = Some u \<and> u \<noteq> [] \<and> urlPatterns r = Some ps \<and>
          pat \<in> set ps \<and> RegExp_test P pat u = Some True))"

text \<open>The folder the loop of \<open>applyRules\<close> pushes to, if any.\<close>

fun firstMatch :: "platform \<Rightarrow> CategoryRule list \<Rightarrow> BookmarkNode \<Rightarrow> string option" where
  "firstMatch P [] n = None"
| "firstMatch P (rule # rules) n =
     (if matchesRule P n rule then Some (targetFolder rule) else firstMatch P rules n)"

text \<open>\<open>categorized.get(folder)\<close>, read as the empty list when the key is absent.\<close>

definition bucket :: "categorized \<Rightarrow> string \<Rightarrow> BookmarkNode list" where
  "bucket m folder = (case m folder of None \<Rightarrow> [] | Some ns \<Rightarrow> ns)"

subsection \<open>A concrete platform for evaluation\<close>

text \<open>
  The instance below evaluates the functions on ASCII inputs, where \<open>lower_char\<close> is
  the browser's lower-casing. The URLs it is applied to are absolute, already in
  serialised form and without a fragment, so the \<open>URL\<close> constructor gives them back
  as they are; a string without \<open>://\<close> is not one of these, and is treated as one on
  which the constructor throws. The patterns it is applied to are made of letters only,
  and such a pattern matches exactly the strings that contain it.
\<close>

definition lower_char :: "char \<Rightarrow> char" where
  "lower_char c =
     (case map_of (zip ''ABCDEFGHIJKLMNOPQRSTUVWXYZ'' ''abcdefghijklmnopqrstuvwxyz'') c of
        None \<Rightarrow> c | Some d \<Rightarrow> d)"

definition ascii_platform :: platform where
  "ascii_platform =
     \<lparr> toLowerCase = map lower_char,
       URL_href = (\<lambda>u. if str_includes u ''://'' then Some u else None),
       RegExp_test = (\<lambda>p u. Some (str_includes u p)) \<rparr>"

definition demo_rules :: "CategoryRule list" where
  "demo_rules =
     [\<lparr> rule_id = ''email'', rule_name = ''Mail'', rule_keywords = [''mail''],
         urlPatterns = None, targetFolder = ''Mail'' \<rparr>,
      \<lparr> rule_id = ''tech'', rule_name = ''Dev'', rule_keywords = [''GIT''],
         urlPatterns = Some [''github''], targetFolder = ''Dev'' \<rparr>,
      \<lparr> rule_id = ''hub'', rule_name = ''Hub'', rule_keywords = [''hub''],
         urlPatterns = None, targetFolder = ''Hub'' \<rparr>]"

definition demo_leaf :: BookmarkNode where
  "demo_leaf = BookmarkNode ''2'' ''GitHub'' (Some ''https://github.com/x'') None (Some ''1'') None"

definition demo_forest :: "BookmarkNode list" where
  "demo_forest = [BookmarkNode ''1'' ''Bar'' None (Some [demo_leaf]) None None]"

section \<open>Link checker: results and responses\<close>

datatype link_status = Normal | Broken | Redirect | Timeout | Error

text \<open>
  The texts a result or an exception carries. \<open>Text\<close> is a message produced by the
  platform; the other constructors stand for the literals of the source:
  \<open>InvalidUrl\<close> "invalid URL", \<open>CheckTimedOut\<close> "check timed out" (the rejection of
  \<open>createTimeoutPromise\<close>), \<open>CheckFailed\<close> "check failed", \<open>RequestTimedOut\<close>
  "request timed out" (an aborted fetch), \<open>NetworkFailure\<close> "network error",
  \<open>TemporaryRedirect\<close> "temporary redirect, verify the target", \<open>Forbidden403\<close>,
  \<open>TooManyRequests429\<close>, \<open>Unauthorized401\<close>, \<open>Gone410\<close>, \<open>ClientError s\<close>
  "client error: HTTP s", \<open>ServerError s\<close> "server error: HTTP s", \<open>HttpStatus s\<close>
  "HTTP s", \<open>TooFast\<close> "response too fast, possibly invalid", \<open>ResponseTimedOut t\<close>
  "response timed out (t ms)", \<open>CorsUnverifiable\<close> and \<open>CorsAssumedNormal\<close> (the two
  notes of the no-cors fallback), \<open>ConnectionFailed\<close> "network connection failed",
  \<open>Unreachable\<close> "cannot be reached", \<open>AccessFailed m\<close> "access failed: m".
\<close>

datatype message =
    Text string
  | InvalidUrl | CheckTimedOut | CheckFailed | RequestTimedOut | NetworkFailure
  | TemporaryRedirect | Forbidden403 | TooManyRequests429 | Unauthorized401 | Gone410
  | ClientError nat | ServerError nat | HttpStatus nat
  | TooFast | ResponseTimedOut nat | CorsUnverifiable | CorsAssumedNormal
  | ConnectionFailed | Unreachable | AccessFailed message

record LinkCheckResult =
  url :: string
  status :: link_status
  statusCode :: "nat option"
  redirectUrl :: "string option"
  error :: "message option"
  checkTime :: nat

text \<open>
  What \<open>processResponse\<close> reads of a fetch \<open>Response\<close>: its status, the
  \<open>redirected\<close> flag, its final URL and the \<open>Location\<close> header. \<open>response.ok\<close>
  is defined by the Fetch standard as a status in the range 200 to 299.
\<close>

record Response =
  resp_status :: nat
  redirected :: bool
  resp_url :: string
  location :: "string option"

definition ok :: "Response \<Rightarrow> bool" where
  "ok r = (200 \<le> resp_status r \<and> resp_status r \<le> 299)"

definition processResponse :: "nat \<Rightarrow> string \<Rightarrow> Response \<Rightarrow> LinkCheckResult" where
  "processResponse now u response =
     (let result = \<lparr> url = u, status = Normal, statusCode = None, redirectUrl = None,
                      error = None, checkTime = now \<rparr>;
          st = resp_status response
      in if ok response then result\<lparr> status := Normal \<rparr>
         else if redirected response then
           (let result1 = result\<lparr> status := Redirect, redirectUrl := Some (resp_url response),
                                  statusCode := Some st \<rparr>
            in if st = 301 \<or> st = 308 then
                 result1\<lparr> status := Normal, redirectUrl := Some (resp_url response) \<rparr>
               else if st = 302 \<or> st = 303 \<or> st = 307 then
                 result1\<lparr> status := Redirect, redirectUrl := Some (resp_url response),
                           error := Some TemporaryRedirect \<rparr>
               else result1\<lparr> status := Redirect, redirectUrl := Some (resp_url response) \<rparr>)
         else if 300 \<le> st \<and> st < 400 then
           (let result1 = result\<lparr> status := Redirect \<rparr>;
                result2 = (if truthy (location response)
                           then result1\<lparr> redirectUrl := location response \<rparr> else result1)
            in result2\<lparr> statusCode := Some st \<rparr>)
         else if 400 \<le> st \<and> st < 500 then
           (if st = 404 then result\<lparr> status := Broken \<rparr>
            else if st = 403 then
              result\<lparr> status := Error, statusCode := Some st, error := Some Forbidden403 \<rparr>
            else if st = 429 then
              result\<lparr> status := Error, statusCode := Some st, error := Some TooManyRequests429 \<rparr>
            else if st = 401 then
              result\<lparr> status := Error, statusCode := Some st, error := Some Unauthorized401 \<rparr>
            else if st = 410 then
              result\<lparr> status := Broken, statusCode := Some st, error := Some Gone410 \<rparr>
            else result\<lparr> status := Error, statusCode := Some st, error := Some (ClientError st) \<rparr>)
         else if 500 \<le> st then
           result\<lparr> status := Error, statusCode := Some st, error := Some (ServerError st) \<rparr>
         else result\<lparr> status := Error, statusCode := Some st, error := Some (HttpStatus st) \<rparr>)"

text \<open>A response with the given status and \<open>redirected\<close> flag, for evaluation.\<close>

definition response_of :: "nat \<Rightarrow> bool \<Rightarrow> Response" where
  "response_of st re =
     \<lparr> resp_status = st, redirected = re, resp_url = ''http://b.test/'', location = None \<rparr>"

section \<open>Organizer: duplicates and URL similarity\<close>

text \<open>The organizer's \<open>normalizeUrl\<close>: the lower-cased serialisation of the URL without
  its fragment, or the lower-cased input when the \<open>URL\<close> constructor throws.\<close>

definition normalizeUrl :: "platform \<Rightarrow> string \<Rightarrow> string" where
  "normalizeUrl P u =
     (case URL_href P u of Some s \<Rightarrow> toLowerCase P s | None \<Rightarrow> toLowerCase P u)"

text \<open>
  \<open>s.split(/[\/\?&#=]+/)\<close>: the pieces between the maximal runs of separator
  characters, with an empty piece where the string starts or ends with a separator.
  \<open>cur\<close> is the piece being read, reversed.
\<close>

definition is_separator :: "char \<Rightarrow> bool" where
  "is_separator c = (c \<in> set ''/?&#='')"

function split_separators :: "string \<Rightarrow> string \<Rightarrow> string list" where
  "split_separators cur [] = [rev cur]"
| "split_separators cur (c # s) =
     (if is_separator c then rev cur # split_separators [] (dropWhile is_separator s)
      else split_separators (c # cur) s)"
  by pat_completeness auto

termination
  by (relation "measure (\<lambda>(cur, s). length s)") (auto simp: length_dropWhile_le less_Suc_eq_le)

definition url_tokens :: "string \<Rightarrow> string list" where
  "url_tokens s = filter (\<lambda>t. 2 < length t) (split_separators [] s)"

text \<open>
  \<open>calculateUrlSimilarity\<close>. The result is the quotient of two counts and is kept as
  an exact rational; the double of the source is its rounding, which is monotone and
  exact at 0 and 1.
\<close>

definition calculateUrlSimilarity :: "platform \<Rightarrow> string \<Rightarrow> string \<Rightarrow> rat" where
  "calculateUrlSimilarity P url1 url2 =
     (let normalized1 = normalizeUrl P url1;
          normalized2 = normalizeUrl P url2
      in if normalized1 = normalized2 then 1
         else
           (let tokens1 = url_tokens normalized1;
                tokens2 = url_tokens normalized2
            in if tokens1 = [] \<or> tokens2 = [] then 0
               else
                 (let intersection = filter (\<lambda>t. t \<in> set tokens2) tokens1;
                      union = remdups (tokens1 @ tokens2)
                  in of_nat (length intersection) / of_nat (length union))))"

record DuplicateInfo =
  dup_url :: string
  dup_bookmarks :: "BookmarkNode list"
  similarity :: rat

record DuplicateOptions =
  exactMatch :: bool
  similarMatch :: bool

text \<open>\<open>urlMap\<close> is a \<open>Map\<close>, iterated in insertion order: an association list with
  distinct keys.\<close>

type_synonym urlMap = "(string \<times> BookmarkNode list) list"

definition urlMap_push :: "urlMap \<Rightarrow> string \<Rightarrow> BookmarkNode \<Rightarrow> urlMap" where
  "urlMap_push m k n =
     (let m1 = (case map_of m k of None \<Rightarrow> m @ [(k, [])] | Some _ \<Rightarrow> m)
      in map (\<lambda>(k', ns). if k' = k then (k', ns @ [n]) else (k', ns)) m1)"

definition urlMap_get :: "urlMap \<Rightarrow> string \<Rightarrow> BookmarkNode list" where
  "urlMap_get m k = (case map_of m k of None \<Rightarrow> [] | Some ns \<Rightarrow> ns)"

fun collectUrls :: "platform \<Rightarrow> BookmarkNode \<Rightarrow> urlMap \<Rightarrow> urlMap"
  and collectUrlsForEach :: "platform \<Rightarrow> BookmarkNode list \<Rightarrow> urlMap \<Rightarrow> urlMap" where
  "collectUrls P (BookmarkNode i t u cs p s) m =
     (let m1 = (if truthy u
                then urlMap_push m (normalizeUrl P (or_empty u)) (BookmarkNode i t u cs p s)
                else m)
      in case cs of None \<Rightarrow> m1 | Some xs \<Rightarrow> collectUrlsForEach P xs m1)"
| "collectUrlsForEach P [] m = m"
| "collectUrlsForEach P (x # xs) m = collectUrlsForEach P xs (collectUrls P x m)"

text \<open>The two nested \<open>for\<close> loops of \<open>findSimilarDuplicates\<close>: \<open>similarInner\<close> runs
  \<open>j\<close> over the keys after \<open>urls[i]\<close>, \<open>similarOuter\<close> runs \<open>i\<close>.\<close>

fun similarInner :: "platform \<Rightarrow> urlMap \<Rightarrow> string \<Rightarrow> string list \<Rightarrow> DuplicateInfo list" where
  "similarInner P m ui [] = []"
| "similarInner P m ui (uj # rest) =
     (let sim = calculateUrlSimilarity P ui uj
      in (if 4 / 5 < sim
          then [\<lparr> dup_url = ui, dup_bookmarks = urlMap_get m ui @ urlMap_get m uj,
                   similarity = sim \<rparr>]
          else []) @ similarInner P m ui rest)"

fun similarOuter :: "platform \<Rightarrow> urlMap \<Rightarrow> string list \<Rightarrow> DuplicateInfo list" where
  "similarOuter P m [] = []"
| "similarOuter P m (ui # rest) = similarInner P m ui rest @ similarOuter P m rest"

definition findSimilarDuplicates :: "platform \<Rightarrow> BookmarkNode list \<Rightarrow> DuplicateInfo list" where
  "findSimilarDuplicates P bookmarks =
     (let m = collectUrlsForEach P bookmarks [] in similarOuter P m (map fst m))"

definition exactDuplicates :: "urlMap \<Rightarrow> DuplicateInfo list" where
  "exactDuplicates m =
     map (\<lambda>(k, ns). \<lparr> dup_url = k, dup_bookmarks = ns, similarity = 1 \<rparr>)
       (filter (\<lambda>(k, ns). 1 < length ns) m)"

definition findDuplicates :: "platform \<Rightarrow> BookmarkNode list \<Rightarrow> DuplicateOptions \<Rightarrow> DuplicateInfo list" where
  "findDuplicates P bookmarks options =
     exactDuplicates (collectUrlsForEach P bookmarks []) @
     (if similarMatch options then findSimilarDuplicates P bookmarks else [])"

text \<open>A bookmark with the given id, title and URL, and a pair of bookmarks for
  evaluation.\<close>

definition leaf :: "string \<Rightarrow> string \<Rightarrow> string \<Rightarrow> BookmarkNode" where
  "leaf i t u = BookmarkNode i t (Some u) None None None"

definition similar_pair :: "BookmarkNode list" where
  "similar_pair =
     [leaf ''10'' ''Deep'' ''http://x.test/aaa/aaa/aaa/aaa'', leaf ''11'' ''Top'' ''http://x.test/aaa'']"

section \<open>Import/export: removing duplicates\<close>

text \<open>
  \<open>removeDuplicates\<close> keeps two collections while it maps over the tree: the URLs
  seen so far and the title keys seen so far. \<open>processNode\<close> returns \<open>None\<close> for
  \<open>null\<close>; \<open>processList\<close> is \<open>.map(child => processNode(child, parent))\<close> followed
  by the filter that drops the \<open>null\<close>s.
\<close>

record dedup_state =
  seenUrls :: "string set"
  seenTitles :: "string \<rightharpoonup> BookmarkNode"

definition titleKey :: "string option \<Rightarrow> string \<Rightarrow> string" where
  "titleKey parent t = (if truthy parent then or_empty parent @ '':'' @ t else t)"

fun processNode :: "dedup_state \<Rightarrow> string option \<Rightarrow> BookmarkNode \<Rightarrow> BookmarkNode option \<times> dedup_state"
  and processList :: "dedup_state \<Rightarrow> string option \<Rightarrow> BookmarkNode list \<Rightarrow> BookmarkNode list \<times> dedup_state" where
  "processNode st parent (BookmarkNode i t u cs p s) =
     (if truthy u then
        (if or_empty u \<in> seenUrls st then (None, st)
         else
           (let st1 = st\<lparr> seenUrls := insert (or_empty u) (seenUrls st) \<rparr>
            in if seenTitles st1 (titleKey parent t) \<noteq> None then (None, st1)
               else (Some (BookmarkNode i t u cs p s),
                     st1\<lparr> seenTitles := (seenTitles st1)(titleKey parent t \<mapsto> BookmarkNode i t u cs p s) \<rparr>)))
      else
        (case cs of
           None \<Rightarrow> (Some (BookmarkNode i t u cs p s), st)
         | Some xs \<Rightarrow>
             (if xs \<noteq> [] then
                (case processList st (Some i) xs of
                   (cleanedChildren, st1) \<Rightarrow> (Some (BookmarkNode i t u (Some cleanedChildren) p s), st1))
              else (Some (BookmarkNode i t u cs p s), st))))"
| "processList st parent [] = ([], st)"
| "processList st parent (x # xs) =
     (case processNode st parent x of
        (r, st1) \<Rightarrow>
          (case processList st1 parent xs of
             (rs, st2) \<Rightarrow> ((case r of None \<Rightarrow> rs | Some n \<Rightarrow> n # rs), st2)))"

definition removeDuplicates :: "BookmarkNode list \<Rightarrow> BookmarkNode list" where
  "removeDuplicates bookmarks =
     fst (processList \<lparr> seenUrls = {}, seenTitles = Map.empty \<rparr> None bookmarks)"

text \<open>
  A node with a URL is a bookmark, a leaf of the tree; a node without one is a folder.
  \<open>leaf_urls\<close> lists the URLs of the bookmark leaves of a forest, and
  \<open>folder_skeleton\<close> is the forest with its bookmark leaves erased: its folders, with
  all their fields, in their nesting and order.
\<close>

fun leaf_urls :: "BookmarkNode \<Rightarrow> string list"
  and leaf_urls_list :: "BookmarkNode list \<Rightarrow> string list" where
  "leaf_urls (BookmarkNode i t u cs p s) =
     (if truthy u then [or_empty u]
      else (case cs of None \<Rightarrow> [] | Some xs \<Rightarrow> leaf_urls_list xs))"
| "leaf_urls_list [] = []"
| "leaf_urls_list (x # xs) = leaf_urls x @ leaf_urls_list xs"

fun folder_skeleton :: "BookmarkNode \<Rightarrow> BookmarkNode list"
  and folder_skeleton_list :: "BookmarkNode list \<Rightarrow> BookmarkNode list" where
  "folder_skeleton (BookmarkNode i t u cs p s) =
     (if truthy u then []
      else [BookmarkNode i t u
              (case cs of None \<Rightarrow> None | Some xs \<Rightarrow> Some (folder_skeleton_list xs)) p s])"
| "folder_skeleton_list [] = []"
| "folder_skeleton_list (x # xs) = folder_skeleton x @ folder_skeleton_list xs"

fun opt_list :: "BookmarkNode option \<Rightarrow> BookmarkNode list" where
  "opt_list None = []"
| "opt_list (Some n) = [n]"

section \<open>Import/export: JSON\<close>

datatype export_format = Html | Json

record ExportOptions =
  format :: export_format
  includeBroken :: "bool option"
  selectedFolders :: "string list option"

text \<open>The default parameter value \<open>{ format: 'json' }\<close>.\<close>

definition default_export_options :: ExportOptions where
  "default_export_options = \<lparr> format = Json, includeBroken = None, selectedFolders = None \<rparr>"

text \<open>The predicate of the \<open>filter\<close> in \<open>filterTree\<close>.\<close>

definition keepNode :: "ExportOptions \<Rightarrow> BookmarkNode \<Rightarrow> bool" where
  "keepNode options n =
     (if (case selectedFolders options of
            None \<Rightarrow> False
          | Some sel \<Rightarrow> node_id n \<noteq> [] \<and> node_id n \<notin> set sel)
      then False
      else if includeBroken options = Some False \<and> node_status n = Some SBroken then False
      else True)"

fun filterTree :: "ExportOptions \<Rightarrow> BookmarkNode list \<Rightarrow> BookmarkNode list"
  and filterChildren :: "ExportOptions \<Rightarrow> BookmarkNode \<Rightarrow> BookmarkNode" where
  "filterTree options [] = []"
| "filterTree options (n # ns) =
     (if keepNode options n then filterChildren options n # filterTree options ns
      else filterTree options ns)"
| "filterChildren options (BookmarkNode i t u cs p s) =
     BookmarkNode i t u (case cs of None \<Rightarrow> None | Some xs \<Rightarrow> Some (filterTree options xs)) p s"

text \<open>
  The exported object \<open>{ version, exportDate, bookmarks }\<close>. \<open>JSON.stringify\<close> and
  \<open>JSON.parse\<close> belong to the platform and are parameters; the type \<open>'t\<close> of the
  serialised text is left open, since neither function below looks into it.
  \<open>exportDate\<close> is the clock reading in ISO format.
\<close>

record export_data =
  data_version :: string
  data_exportDate :: string
  data_bookmarks :: "BookmarkNode list"

definition exportToJSON ::
  "(export_data \<Rightarrow> 't) \<Rightarrow> string \<Rightarrow> BookmarkNode list \<Rightarrow> ExportOptions \<Rightarrow> 't" where
  "exportToJSON stringify isoNow bookmarkTree options =
     stringify \<lparr> data_version = ''1.0'', data_exportDate = isoNow,
                 data_bookmarks = filterTree options bookmarkTree \<rparr>"

text \<open>
  What \<open>importFromJSON\<close> sees of the parsed value: \<open>null\<close>; a value whose
  \<open>bookmarks\<close> property is falsy or not an array; or a value with a \<open>bookmarks\<close>
  array, whose elements the source reads as \<open>BookmarkNode\<close> objects. A text that does
  not parse is \<open>Inl\<close> of the platform's message.
\<close>

datatype parsed_data = ParsedNull | NoBookmarkArray | BookmarkArray "BookmarkNode list"

text \<open>The rethrown error "JSON parse failed: ..." with its cause: the platform's
  message, the access to a property of \<open>null\<close>, or "invalid JSON format".\<close>

datatype import_cause = PlatformMessage string | PropertyOfNull | InvalidJsonFormat

datatype import_error = JsonParseFailed import_cause

text \<open>
  \<open>generateId\<close> reads the clock and the random generator. \<open>draw k\<close> is the pair of
  texts (timestamp, random suffix) that the \<open>k\<close>-th call obtains; the counter is
  threaded through \<open>addIds\<close> in evaluation order: a node's own id first, then its
  children from left to right.
\<close>

definition generateId :: "(nat \<Rightarrow> string \<times> string) \<Rightarrow> nat \<Rightarrow> string \<times> nat" where
  "generateId draw k = (''bk_'' @ fst (draw k) @ ''_'' @ snd (draw k), Suc k)"

fun addIds :: "(nat \<Rightarrow> string \<times> string) \<Rightarrow> nat \<Rightarrow> string option \<Rightarrow> BookmarkNode \<Rightarrow> BookmarkNode \<times> nat"
  and addIdsMap :: "(nat \<Rightarrow> string \<times> string) \<Rightarrow> nat \<Rightarrow> string option \<Rightarrow> BookmarkNode list \<Rightarrow> BookmarkNode list \<times> nat" where
  "addIds draw k parent (BookmarkNode i t u cs p s) =
     (case (if i \<noteq> [] then (i, k) else generateId draw k) of
        (i', k1) \<Rightarrow>
          (case cs of
             None \<Rightarrow> (BookmarkNode i' t u None parent s, k1)
           | Some xs \<Rightarrow>
               (case addIdsMap draw k1 (Some i) xs of
                  (ys, k2) \<Rightarrow> (BookmarkNode i' t u (Some ys) parent s, k2))))"
| "addIdsMap draw k parent [] = ([], k)"
| "addIdsMap draw k parent (x # xs) =
     (case addIds draw k parent x of
        (y, k1) \<Rightarrow> (case addIdsMap draw k1 parent xs of (ys, k2) \<Rightarrow> (y # ys, k2)))"

definition importFromJSON ::
  "('t \<Rightarrow> string + parsed_data) \<Rightarrow> (nat \<Rightarrow> string \<times> string) \<Rightarrow> nat \<Rightarrow> 't \<Rightarrow>
     import_error + BookmarkNode list" where
  "importFromJSON parse draw k jsonContent =
     (case parse jsonContent of
        Inl m \<Rightarrow> Inl (JsonParseFailed (PlatformMessage m))
      | Inr ParsedNull \<Rightarrow> Inl (JsonParseFailed PropertyOfNull)
      | Inr NoBookmarkArray \<Rightarrow> Inl (JsonParseFailed InvalidJsonFormat)
      | Inr (BookmarkArray ns) \<Rightarrow> Inr (fst (addIdsMap draw k None ns)))"

text \<open>The fields the round trip is about: id, title, URL and children.\<close>

datatype core_node = CoreNode string string "string option" "core_node list option"

fun core_of :: "BookmarkNode \<Rightarrow> core_node"
  and core_of_list :: "BookmarkNode list \<Rightarrow> core_node list" where
  "core_of (BookmarkNode i t u cs p s) =
     CoreNode i t u (case cs of None \<Rightarrow> None | Some xs \<Rightarrow> Some (core_of_list xs))"
| "core_of_list [] = []"
| "core_of_list (x # xs) = core_of x # core_of_list xs"

text \<open>A codec that loses nothing, for evaluation: the text is the exported value.\<close>

definition ideal_stringify :: "export_data \<Rightarrow> export_data" where
  "ideal_stringify d = d"

definition ideal_parse :: "export_data \<Rightarrow> string + parsed_data" where
  "ideal_parse d = Inr (BookmarkArray (data_bookmarks d))"

definition demo_draw :: "nat \<Rightarrow> string \<times> string" where
  "demo_draw k = (''1700000000000'', ''k3x9q2m1z'')"

text \<open>A bookmark whose id is the empty string.\<close>

definition unnamed_leaf :: BookmarkNode where
  "unnamed_leaf = BookmarkNode [] ''Example'' (Some ''http://a.test/'') None None None"

section \<open>Link checker: one URL\<close>

text \<open>
  Time is counted in milliseconds. What the network does with a request is a
  \<open>fetch_outcome\<close>: the fetch promise would resolve with a response, or reject with an
  error other than an abort (carrying the error's message), after the given time since
  the request was issued, or it would stay pending. A \<open>probe\<close> is what one call of
  \<open>checkUrl\<close> meets: the clock reading when it starts, and the outcomes of the HEAD
  request and of the no-cors GET request of the fallback.
\<close>

datatype fetch_outcome = Responds nat Response | Rejects nat string | Pending

record probe =
  started :: nat
  head_request :: fetch_outcome
  get_request :: fetch_outcome

definition CHECK_TIMEOUT :: nat where
  "CHECK_TIMEOUT = 5000"

text \<open>The object literals \<open>{ url, status, error, checkTime: Date.now() }\<close>.\<close>

definition result_of :: "string \<Rightarrow> link_status \<Rightarrow> message \<Rightarrow> nat \<Rightarrow> LinkCheckResult" where
  "result_of u st m t =
     \<lparr> url = u, status = st, statusCode = None, redirectUrl = None, error = Some m,
       checkTime = t \<rparr>"

text \<open>
  \<open>performCheckWithNoCors\<close>, called at time \<open>t0\<close>. Its abort timer fires
  \<open>CHECK_TIMEOUT - 500\<close> after the call; a fetch that has not settled by then rejects
  with an \<open>AbortError\<close>. The result is paired with the time at which the returned
  promise settles.
\<close>

definition performCheckWithNoCors ::
  "bool \<Rightarrow> string \<Rightarrow> nat \<Rightarrow> fetch_outcome \<Rightarrow> nat \<times> LinkCheckResult" where
  "performCheckWithNoCors strict u t0 g =
     (let aborted = (t0 + (CHECK_TIMEOUT - 500),
                     result_of u Timeout RequestTimedOut (t0 + (CHECK_TIMEOUT - 500)))
      in case g of
           Responds t r \<Rightarrow>
             (if t < CHECK_TIMEOUT - 500 then
                (let responseTime = t
                 in if responseTime < 30 then (t0 + t, result_of u Error TooFast (t0 + t))
                    else if 4500 < responseTime then
                      (t0 + t, result_of u Timeout (ResponseTimedOut responseTime) (t0 + t))
                    else if strict then (t0 + t, result_of u Error CorsUnverifiable (t0 + t))
                    else (t0 + t, result_of u Normal CorsAssumedNormal (t0 + t)))
              else aborted)
         | Rejects t m \<Rightarrow>
             (if t < CHECK_TIMEOUT - 500 then
                (let errorMessage = (if m = [] then Unreachable else Text m)
                 in if str_includes m ''NetworkError'' \<or> str_includes m ''Failed to fetch''
                    then (t0 + t, result_of u Error ConnectionFailed (t0 + t))
                    else (t0 + t, result_of u Error (AccessFailed errorMessage) (t0 + t)))
              else aborted)
         | Pending \<Rightarrow> aborted)"

text \<open>\<open>performCheck\<close>: the HEAD request with its own abort timer, and the fallback when
  the rejection looks like a CORS failure.\<close>

definition performCheck :: "bool \<Rightarrow> string \<Rightarrow> probe \<Rightarrow> nat \<times> LinkCheckResult" where
  "performCheck strict u p =
     (let t0 = started p;
          aborted = (t0 + (CHECK_TIMEOUT - 500),
                     result_of u Timeout RequestTimedOut (t0 + (CHECK_TIMEOUT - 500)))
      in case head_request p of
           Responds t r \<Rightarrow>
             (if t < CHECK_TIMEOUT - 500 then (t0 + t, processResponse (t0 + t) u r)
              else aborted)
         | Rejects t m \<Rightarrow>
             (if t < CHECK_TIMEOUT - 500 then
                (if str_includes m ''Failed to fetch'' \<or> str_includes m ''CORS''
                 then performCheckWithNoCors strict u (t0 + t) (get_request p)
                 else (t0 + t,
                       result_of u Error (if m = [] then NetworkFailure else Text m) (t0 + t)))
              else aborted)
         | Pending \<Rightarrow> aborted)"

text \<open>
  \<open>Promise.race([performCheck(url), createTimeoutPromise(url)])\<close>: the timeout promise
  rejects with the error "check timed out" \<open>CHECK_TIMEOUT\<close> after the start. \<open>Inl\<close> is a
  rejection. A check that settles exactly when the timer fires is taken to lose.
\<close>

definition race_timeout :: "nat \<Rightarrow> nat \<times> LinkCheckResult \<Rightarrow> message + LinkCheckResult" where
  "race_timeout t0 settled =
     (if fst settled < t0 + CHECK_TIMEOUT then Inr (snd settled) else Inl CheckTimedOut)"

subsection \<open>The service object and the calls of the user interface\<close>

text \<open>
  The fields of \<open>LinkCheckerService\<close>. \<open>pauseResolver\<close> tells whether a resolver is
  stored, that is, whether a promise made by \<open>checkPause\<close> is waiting. \<open>cancel\<close>,
  \<open>pause\<close> and \<open>resume\<close> return the new state and whether they invoked the stored
  resolver.
\<close>

record LinkChecker =
  isPaused :: bool
  pauseResolver :: bool
  currentCheckingUrl :: "string option"
  isChecking :: bool
  strictMode :: bool
  isCancelled :: bool

definition cancel :: "LinkChecker \<Rightarrow> LinkChecker \<times> bool" where
  "cancel st =
     (st\<lparr> isCancelled := True, isPaused := False, isChecking := False, pauseResolver := False \<rparr>,
      pauseResolver st)"

definition pause :: "LinkChecker \<Rightarrow> LinkChecker \<times> bool" where
  "pause st = (st\<lparr> isPaused := True \<rparr>, False)"

definition resume :: "LinkChecker \<Rightarrow> LinkChecker \<times> bool" where
  "resume st = (st\<lparr> isPaused := False, pauseResolver := False \<rparr>, pauseResolver st)"

text \<open>
  The service runs on one thread: the user interface can call it only while the running
  check is suspended at an \<open>await\<close> that takes time. A schedule is a list of batches
  of calls; each such suspension consumes the next batch, the calls made while it lasts
  (none when the schedule is used up).
\<close>

datatype call = Cancel | Pause | Resume

fun run_call :: "call \<Rightarrow> LinkChecker \<Rightarrow> LinkChecker \<times> bool" where
  "run_call Cancel st = cancel st"
| "run_call Pause st = pause st"
| "run_call Resume st = resume st"

fun run_batch :: "call list \<Rightarrow> LinkChecker \<Rightarrow> LinkChecker \<times> bool" where
  "run_batch [] st = (st, False)"
| "run_batch (c # cs) st =
     (case run_call c st of
        (st1, fired1) \<Rightarrow> (case run_batch cs st1 of (st2, fired2) \<Rightarrow> (st2, fired1 \<or> fired2)))"

text \<open>A suspension of fixed length (the race, the delay between two URLs).\<close>

fun timed_await :: "LinkChecker \<Rightarrow> call list list \<Rightarrow> LinkChecker \<times> call list list" where
  "timed_await st [] = (st, [])"
| "timed_await st (b # schedule) = (fst (run_batch b st), schedule)"

text \<open>
  A suspension on the promise of \<open>checkPause\<close>: it lasts until a batch invokes the
  stored resolver. When no batch ever does, the promise stays pending and the caller
  never continues: \<open>None\<close>.
\<close>

fun await_resolver :: "LinkChecker \<Rightarrow> call list list \<Rightarrow> (LinkChecker \<times> call list list) option" where
  "await_resolver st [] = None"
| "await_resolver st (b # schedule) =
     (case run_batch b st of
        (st1, fired) \<Rightarrow> if fired then Some (st1, schedule) else await_resolver st1 schedule)"

definition checkPause :: "LinkChecker \<Rightarrow> call list list \<Rightarrow> (LinkChecker \<times> call list list) option" where
  "checkPause st schedule =
     (if \<not> isPaused st then Some (st, schedule)
      else await_resolver (st\<lparr> pauseResolver := True \<rparr>) schedule)"

text \<open>
  \<open>checkUrl\<close>. The \<open>try\<close> block awaits the race; a rejection is turned into an
  \<open>error\<close> result by the \<open>catch\<close> block; the \<open>finally\<close> block clears
  \<open>currentCheckingUrl\<close> if it still holds this URL.
\<close>

definition checkUrl ::
  "LinkChecker \<Rightarrow> string \<Rightarrow> probe \<Rightarrow> call list list \<Rightarrow>
     (LinkCheckResult \<times> LinkChecker \<times> call list list) option" where
  "checkUrl st u p schedule =
     (if u = [] \<or> \<not> startsWith u ''http''
      then Some (result_of u Error InvalidUrl (started p), st, schedule)
      else
        (case checkPause st schedule of
           None \<Rightarrow> None
         | Some (st1, schedule1) \<Rightarrow>
             (let st2 = st1\<lparr> currentCheckingUrl := Some u \<rparr>;
                  raced = race_timeout (started p) (performCheck (strictMode st2) u p);
                  (st3, schedule2) = timed_await st2 schedule1;
                  result = (case raced of
                              Inr r \<Rightarrow> r
                            | Inl m \<Rightarrow> result_of u Error m (started p + CHECK_TIMEOUT));
                  st4 = (if currentCheckingUrl st3 = Some u
                         then st3\<lparr> currentCheckingUrl := None \<rparr> else st3)
              in Some (result, st4, schedule2))))"

text \<open>A service object at rest, and a probe on which the fallback outlasts the race:
  the HEAD request fails after one second with the browser's CORS message, and the
  no-cors GET request gets no answer.\<close>

definition idle :: LinkChecker where
  "idle = \<lparr> isPaused = False, pauseResolver = False, currentCheckingUrl = None,
            isChecking = False, strictMode = False, isCancelled = False \<rparr>"

definition slow_fallback :: probe where
  "slow_fallback =
     \<lparr> started = 0, head_request = Rejects 1000 ''Failed to fetch'', get_request = Pending \<rparr>"

section \<open>Link checker: all URLs\<close>

text \<open>The \<open>collectUrls\<close> of \<open>checkAllUrls\<close>: the URLs that start with \<open>http\<close>, in
  traversal order.\<close>

fun collectHttpUrls :: "BookmarkNode \<Rightarrow> string list"
  and collectHttpUrlsForEach :: "BookmarkNode list \<Rightarrow> string list" where
  "collectHttpUrls (BookmarkNode i t u cs p s) =
     (if truthy u \<and> startsWith (or_empty u) ''http'' then [or_empty u] else []) @
     (case cs of None \<Rightarrow> [] | Some xs \<Rightarrow> collectHttpUrlsForEach xs)"
| "collectHttpUrlsForEach [] = []"
| "collectHttpUrlsForEach (x # xs) = collectHttpUrls x @ collectHttpUrlsForEach xs"

text \<open>
  The \<open>for\<close> loop of \<open>checkAllUrls\<close>, from index \<open>i\<close> on: \<open>urls\<close> are the URLs
  not yet visited, \<open>results\<close> the results pushed so far, \<open>net i\<close> the probe that the
  check of \<open>urls[i]\<close> meets. The progress callback is left out. The inner \<open>catch\<close>
  has no counterpart, since \<open>checkUrl\<close> does not reject.
\<close>

fun checkLoop ::
  "LinkChecker \<Rightarrow> (nat \<Rightarrow> probe) \<Rightarrow> nat \<Rightarrow> string list \<Rightarrow> LinkCheckResult list \<Rightarrow> call list list \<Rightarrow>
     (LinkCheckResult list \<times> LinkChecker \<times> call list list) option" where
  "checkLoop st net i [] results schedule = Some (results, st, schedule)"
| "checkLoop st net i (u # urls) results schedule =
     (if isCancelled st then Some (results, st, schedule)
      else
        (case (if isPaused st then checkPause st schedule else Some (st, schedule)) of
           None \<Rightarrow> None
         | Some (st1, schedule1) \<Rightarrow>
             (case checkUrl st1 u (net i) schedule1 of
                None \<Rightarrow> None
              | Some (result, st2, schedule2) \<Rightarrow>
                  (case (if urls \<noteq> [] then timed_await st2 schedule2 else (st2, schedule2)) of
                     (st3, schedule3) \<Rightarrow>
                       checkLoop st3 net (Suc i) urls (results @ [result]) schedule3))))"

definition checkAllUrls ::
  "LinkChecker \<Rightarrow> BookmarkNode list \<Rightarrow> (nat \<Rightarrow> probe) \<Rightarrow> call list list \<Rightarrow>
     (LinkCheckResult list \<times> LinkChecker \<times> call list list) option" where
  "checkAllUrls st bookmarks net schedule =
     (if isChecking st then Some ([], st, schedule)
      else
        (case checkLoop (st\<lparr> isChecking := True \<rparr>) net 0 (collectHttpUrlsForEach bookmarks) []
                schedule of
           None \<Rightarrow> None
         | Some (results, st1, schedule1) \<Rightarrow>
             Some (results,
                   st1\<lparr> isChecking := False, currentCheckingUrl := None, isCancelled := False \<rparr>,
                   schedule1)))"

text \<open>
  Two bookmarks whose servers answer the HEAD request with 200 after 100 ms, and a
  schedule: the user presses pause while the first URL is being checked, nothing
  happens during the delay, and the user presses cancel while the loop waits, paused,
  at the start of the second iteration.
\<close>

definition two_links :: "BookmarkNode list" where
  "two_links = [leaf ''21'' ''One'' ''http://one.test/'', leaf ''22'' ''Two'' ''http://two.test/'']"

definition quick_ok :: "nat \<Rightarrow> probe" where
  "quick_ok i =
     \<lparr> started = 1000 * i, head_request = Responds 100 (response_of 200 False),
       get_request = Pending \<rparr>"

definition pause_then_cancel :: "call list list" where
  "pause_then_cancel = [[Pause], [], [Cancel]]"

section \<open>Cloud sync\<close>

text \<open>
  \<open>localStorage\<close> is a map from keys to texts (\<open>getItem\<close> of an absent key is
  \<open>null\<close>); \<open>setItem\<close> is taken to succeed. The JSON codec of the platform is a
  parameter, seen at the two types the service stores. \<open>parse_user t\<close> is \<open>None\<close>
  when \<open>JSON.parse\<close> throws, \<open>Some None\<close> when the text parses to \<open>null\<close> (or
  another falsy value), and \<open>Some (Some u)\<close> when it parses to the user \<open>u\<close>;
  \<open>parse_sync t\<close> is \<open>None\<close> when \<open>JSON.parse\<close> throws.
\<close>

type_synonym localStorage = "string \<rightharpoonup> string"

record User =
  user_id :: string
  user_email :: string
  username :: string
  avatar :: "string option"
  createdAt :: nat
  lastSyncTime :: nat
  syncEnabled :: bool

record SyncData =
  userId :: string
  sync_bookmarks :: "BookmarkNode list"
  timestamp :: nat
  sync_version :: string

record json_codec =
  parse_user :: "string \<Rightarrow> User option option"
  stringify_user :: "User \<Rightarrow> string"
  parse_sync :: "string \<Rightarrow> SyncData option"
  stringify_sync :: "SyncData \<Rightarrow> string"

definition STORAGE_KEY_USER :: string where
  "STORAGE_KEY_USER = ''bookmark_user''"

definition STORAGE_KEY_SYNC_DATA :: string where
  "STORAGE_KEY_SYNC_DATA = ''bookmark_sync_data''"

text \<open>\<open>SyntaxError\<close> is what \<open>JSON.parse\<close> throws in \<open>downloadBookmarks\<close>,
  outside any \<open>try\<close>.\<close>

datatype sync_error = NotLoggedIn | SyntaxError

definition getCurrentUser :: "json_codec \<Rightarrow> localStorage \<Rightarrow> User option" where
  "getCurrentUser codec store =
     (case store STORAGE_KEY_USER of
        None \<Rightarrow> None
      | Some userData \<Rightarrow>
          (if userData = [] then None
           else (case parse_user codec userData of None \<Rightarrow> None | Some v \<Rightarrow> v)))"

text \<open>\<open>uploadBookmarks\<close> reads the clock twice: \<open>now1\<close> for the timestamp of the
  stored data, \<open>now2\<close> for the user's last sync time.\<close>

definition uploadBookmarks ::
  "json_codec \<Rightarrow> nat \<Rightarrow> nat \<Rightarrow> localStorage \<Rightarrow> BookmarkNode list \<Rightarrow> (sync_error + unit) \<times> localStorage" where
  "uploadBookmarks codec now1 now2 store bs =
     (case getCurrentUser codec store of
        None \<Rightarrow> (Inl NotLoggedIn, store)
      | Some user \<Rightarrow>
          (let syncData = \<lparr> userId = user_id user, sync_bookmarks = bs, timestamp = now1,
                            sync_version = ''1.0.0'' \<rparr>;
               store1 = store(STORAGE_KEY_SYNC_DATA \<mapsto> stringify_sync codec syncData);
               user1 = user\<lparr> lastSyncTime := now2 \<rparr>;
               store2 = store1(STORAGE_KEY_USER \<mapsto> stringify_user codec user1)
           in (Inr (), store2)))"

definition downloadBookmarks ::
  "json_codec \<Rightarrow> localStorage \<Rightarrow> (sync_error + BookmarkNode list) \<times> localStorage" where
  "downloadBookmarks codec store =
     (case getCurrentUser codec store of
        None \<Rightarrow> (Inl NotLoggedIn, store)
      | Some user \<Rightarrow>
          (case store STORAGE_KEY_SYNC_DATA of
             None \<Rightarrow> (Inr [], store)
           | Some syncDataStr \<Rightarrow>
               (if syncDataStr = [] then (Inr [], store)
                else (case parse_sync codec syncDataStr of
                        None \<Rightarrow> (Inl SyntaxError, store)
                      | Some syncData \<Rightarrow> (Inr (sync_bookmarks syncData), store)))))"

definition syncBookmarks ::
  "json_codec \<Rightarrow> nat \<Rightarrow> nat \<Rightarrow> localStorage \<Rightarrow> BookmarkNode list \<Rightarrow>
     (sync_error + BookmarkNode list) \<times> localStorage" where
  "syncBookmarks codec now1 now2 store localBookmarks =
     (case getCurrentUser codec store of
        None \<Rightarrow> (Inl NotLoggedIn, store)
      | Some user \<Rightarrow>
          (case uploadBookmarks codec now1 now2 store localBookmarks of
             (Inl e, store1) \<Rightarrow> (Inl e, store1)
           | (Inr _, store1) \<Rightarrow> downloadBookmarks codec store1))"

text \<open>What the platform's codec guarantees of a stored user: its text is not empty and
  parses to a user again.\<close>

definition reads_back_user :: "json_codec \<Rightarrow> bool" where
  "reads_back_user codec =
     (\<forall>u. stringify_user codec u \<noteq> [] \<and>
          (\<exists>v. parse_user codec (stringify_user codec u) = Some (Some v)))"

text \<open>
  A small codec for evaluation: the text of a user is \<open>user:\<close> followed by the id, and
  the text of the sync data is its user id; reading gives the other fields fixed values.
\<close>

definition demo_user :: "string \<Rightarrow> User" where
  "demo_user i =
     \<lparr> user_id = i, user_email = ''a@b.test'', username = ''a'', avatar = None,
       createdAt = 0, lastSyncTime = 0, syncEnabled = True \<rparr>"

definition demo_codec :: json_codec where
  "demo_codec =
     \<lparr> parse_user = (\<lambda>t. if startsWith t ''user:'' then Some (Some (demo_user (drop 5 t)))
                         else if t = ''null'' then Some None else None),
       stringify_user = (\<lambda>u. ''user:'' @ user_id u),
       parse_sync = (\<lambda>t. Some \<lparr> userId = t, sync_bookmarks = [], timestamp = 0,
                                sync_version = ''1.0.0'' \<rparr>),
       stringify_sync = (\<lambda>d. userId d) \<rparr>"

definition logged_in_store :: localStorage where
  "logged_in_store = [STORAGE_KEY_USER \<mapsto> ''user:u1'']"

section \<open>Properties\<close>

subsection \<open>Categorization\<close>

lemma matchesRule_iff: "matchesRule P b r = rule_matches P b r"
  unfolding matchesRule_def rule_matches_def matchesKeyword_def matchesPattern_def
  by (cases "node_url b"; cases "urlPatterns r")
     (auto simp: list_ex_iff split: option.splits)

lemma applyRules_firstMatch:
  "applyRules P rules n m = (case firstMatch P rules n of None \<Rightarrow> m | Some f \<Rightarrow> push_to m f n)"
  by (induction rules) auto

lemma bucket_push_to:
  "bucket (push_to m f n) g = (if g = f then bucket m f @ [n] else bucket m g)"
  by (auto simp: bucket_def push_to_def Let_def split: option.splits)

lemma firstMatch_iff:
  "firstMatch P rules n = Some f \<longleftrightarrow>
     (\<exists>i<length rules. matchesRule P n (rules ! i) \<and> (\<forall>j<i. \<not> matchesRule P n (rules ! j)) \<and>
        targetFolder (rules ! i) = f)"
proof (induction rules)
  case Nil
  then show ?case by simp
next
  case (Cons r rs)
  show ?case
  proof (cases "matchesRule P n r")
    case True
    have "(\<exists>i<length (r # rs). matchesRule P n ((r # rs) ! i) \<and>
            (\<forall>j<i. \<not> matchesRule P n ((r # rs) ! j)) \<and> targetFolder ((r # rs) ! i) = f)
          \<longleftrightarrow> targetFolder r = f"
    proof
      assume "\<exists>i<length (r # rs). matchesRule P n ((r # rs) ! i) \<and>
            (\<forall>j<i. \<not> matchesRule P n ((r # rs) ! j)) \<and> targetFolder ((r # rs) ! i) = f"
      then obtain i where i: "i < length (r # rs)" "\<forall>j<i. \<not> matchesRule P n ((r # rs) ! j)"
        "targetFolder ((r # rs) ! i) = f" by blast
      have "i = 0"
      proof (rule ccontr)
        assume "i \<noteq> 0"
        then have "0 < i" by simp
        with i(2) have "\<not> matchesRule P n ((r # rs) ! 0)" by blast
        with True show False by simp
      qed
      with i(3) show "targetFolder r = f" by simp
    next
      assume "targetFolder r = f"
      with True show "\<exists>i<length (r # rs). matchesRule P n ((r # rs) ! i) \<and>
            (\<forall>j<i. \<not> matchesRule P n ((r # rs) ! j)) \<and> targetFolder ((r # rs) ! i) = f"
        by (intro exI[of _ 0]) simp
    qed
    with True show ?thesis by auto
  next
    case False
    have "(\<exists>i<length (r # rs). matchesRule P n ((r # rs) ! i) \<and>
            (\<forall>j<i. \<not> matchesRule P n ((r # rs) ! j)) \<and> targetFolder ((r # rs) ! i) = f)
          \<longleftrightarrow> (\<exists>i<length rs. matchesRule P n (rs ! i) \<and>
            (\<forall>j<i. \<not> matchesRule P n (rs ! j)) \<and> targetFolder (rs ! i) = f)"
      (is "?L \<longleftrightarrow> ?R")
    proof
      assume ?L
      then obtain i where i: "i < length (r # rs)" "matchesRule P n ((r # rs) ! i)"
        "\<forall>j<i. \<not> matchesRule P n ((r # rs) ! j)" "targetFolder ((r # rs) ! i) = f" by blast
      from i(2) False obtain k where k: "i = Suc k" by (cases i) auto
      have "\<forall>j<k. \<not> matchesRule P n (rs ! j)"
      proof (intro allI impI)
        fix j assume "j < k"
        then have "Suc j < i" using k by simp
        with i(3) have "\<not> matchesRule P n ((r # rs) ! Suc j)" by blast
        then show "\<not> matchesRule P n (rs ! j)" by simp
      qed
      with i k show ?R by (intro exI[of _ k]) simp
    next
      assume ?R
      then obtain k where k: "k < length rs" "matchesRule P n (rs ! k)"
        "\<forall>j<k. \<not> matchesRule P n (rs ! j)" "targetFolder (rs ! k) = f" by blast
      have "\<forall>j<Suc k. \<not> matchesRule P n ((r # rs) ! j)"
      proof (intro allI impI)
        fix j assume "j < Suc k"
        then show "\<not> matchesRule P n ((r # rs) ! j)"
          using False k(3) by (cases j) auto
      qed
      with k show ?L by (intro exI[of _ "Suc k"]) simp
    qed
    with False Cons.IH show ?thesis by simp
  qed
qed

lemma categorize_bucket:
  "set (bucket (categorizeNode P rules x m) f) =
     set (bucket m f) \<union> {n \<in> set (nodes_of x). truthy (node_url n) \<and> firstMatch P rules n = Some f}"
  "set (bucket (categorizeForEach P rules xs m) f) =
     set (bucket m f) \<union> {n \<in> set (nodes_of_list xs). truthy (node_url n) \<and> firstMatch P rules n = Some f}"
proof (induction P rules x m and P rules xs m rule: categorizeNode_categorizeForEach.induct)
  case (1 P rules i t u cs p s m)
  then show ?case
    by (cases cs) (auto simp: applyRules_firstMatch bucket_push_to Let_def split: option.splits)
next
  case (2 P rules m)
  then show ?case by simp
next
  case (3 P rules x xs m)
  then show ?case by auto
qed

text \<open>
  Claim C1. For a node of the forest that has a (non-empty) URL, and any rule list, the
  node is listed under a folder by \<open>categorizeBookmarks\<close> exactly when that folder is
  the target of the first rule, in list order, that matches it: a matching rule at index
  \<open>i\<close> wins over every matching rule at a larger index, and a node that matches no
  rule is listed under no folder.
\<close>

theorem categorize_first_match:
  assumes "n \<in> set (nodes_of_list bookmarks)" and "truthy (node_url n)"
  shows "n \<in> set (bucket (categorizeBookmarks P bookmarks rules) folder) \<longleftrightarrow>
         (\<exists>i<length rules. rule_matches P n (rules ! i) \<and>
            (\<forall>j<i. \<not> rule_matches P n (rules ! j)) \<and> targetFolder (rules ! i) = folder)"
proof -
  have "set (bucket (categorizeBookmarks P bookmarks rules) folder) =
        {n \<in> set (nodes_of_list bookmarks). truthy (node_url n) \<and> firstMatch P rules n = Some folder}"
  proof -
    have "bucket Map.empty folder = []" by (simp add: bucket_def)
    then show ?thesis
      unfolding categorizeBookmarks_def by (simp add: categorize_bucket(2))
  qed
  with assms have "n \<in> set (bucket (categorizeBookmarks P bookmarks rules) folder) \<longleftrightarrow>
      firstMatch P rules n = Some folder" by simp
  then show ?thesis by (simp add: firstMatch_iff matchesRule_iff)
qed

theorem categorize_first_match_witness:
  "demo_leaf \<in> set (nodes_of_list demo_forest) \<and> truthy (node_url demo_leaf) \<and>
   demo_leaf \<in> set (bucket (categorizeBookmarks ascii_platform demo_forest demo_rules) ''Dev'') \<and>
   (\<exists>i<length demo_rules. rule_matches ascii_platform demo_leaf (demo_rules ! i) \<and>
      (\<forall>j<i. \<not> rule_matches ascii_platform demo_leaf (demo_rules ! j)) \<and>
      targetFolder (demo_rules ! i) = ''Dev'')"
proof -
  have h1: "demo_leaf \<in> set (nodes_of_list demo_forest)"
    by (simp add: demo_forest_def demo_leaf_def)
  have h2: "truthy (node_url demo_leaf)" by (simp add: demo_leaf_def)
  have h3: "demo_leaf \<in> set (bucket (categorizeBookmarks ascii_platform demo_forest demo_rules) ''Dev'')"
    by (simp add: categorizeBookmarks_def demo_forest_def demo_leaf_def demo_rules_def
      ascii_platform_def matchesRule_def matchesKeyword_def matchesPattern_def lower_char_def
      push_to_def bucket_def)
  from categorize_first_match [OF h1 h2, of ascii_platform demo_rules "''Dev''"] h1 h2 h3
  show ?thesis by blast
qed

subsection \<open>Link checker: status buckets\<close>

text \<open>
  Claim C2, as stated, fails: a redirected response with status 301 is a 3xx response,
  and \<open>processResponse\<close> reports it as \<open>normal\<close>, not as \<open>redirect\<close>.
\<close>

theorem processResponse_redirected_301_counterexample:
  "300 \<le> resp_status (response_of 301 True) \<and> resp_status (response_of 301 True) < 400 \<and>
   status (processResponse 0 ''http://a.test/'' (response_of 301 True)) \<noteq> Redirect"
  by (simp add: processResponse_def response_of_def ok_def)

text \<open>
  Claim C2, amended. For a response that was not redirected, status 404 or 410 gives
  \<open>broken\<close>; 401, 403 or 429 gives \<open>error\<close>; every other 4xx and every status from
  500 on gives \<open>error\<close>; a 3xx status gives \<open>redirect\<close>. For a redirected response,
  301 or 308 gives \<open>normal\<close> with the final URL recorded as the redirect target, and
  302, 303 or 307 gives \<open>redirect\<close> with the temporary-redirect note.
\<close>

theorem processResponse_buckets:
  fixes now :: nat and u :: string and r :: Response
  defines "s \<equiv> resp_status r" and "res \<equiv> processResponse now u r"
  shows "(\<not> redirected r \<and> (s = 404 \<or> s = 410) \<longrightarrow> status res = Broken) \<and>
         (\<not> redirected r \<and> (s = 401 \<or> s = 403 \<or> s = 429) \<longrightarrow> status res = Error) \<and>
         (\<not> redirected r \<and> 400 \<le> s \<and> s < 500 \<and> s \<noteq> 404 \<and> s \<noteq> 410 \<longrightarrow> status res = Error) \<and>
         (\<not> redirected r \<and> 500 \<le> s \<longrightarrow> status res = Error) \<and>
         (\<not> redirected r \<and> 300 \<le> s \<and> s < 400 \<longrightarrow> status res = Redirect) \<and>
         (redirected r \<and> (s = 301 \<or> s = 308) \<longrightarrow>
            status res = Normal \<and> redirectUrl res = Some (resp_url r)) \<and>
         (redirected r \<and> (s = 302 \<or> s = 303 \<or> s = 307) \<longrightarrow>
            status res = Redirect \<and> error res = Some TemporaryRedirect)"
  unfolding s_def res_def processResponse_def ok_def Let_def by auto

theorem processResponse_buckets_witness:
  "status (processResponse 5 ''http://a.test/'' (response_of 404 False)) = Broken \<and>
   status (processResponse 5 ''http://a.test/'' (response_of 403 False)) = Error \<and>
   status (processResponse 5 ''http://a.test/'' (response_of 418 False)) = Error \<and>
   status (processResponse 5 ''http://a.test/'' (response_of 503 False)) = Error \<and>
   status (processResponse 5 ''http://a.test/'' (response_of 304 False)) = Redirect \<and>
   status (processResponse 5 ''http://a.test/'' (response_of 308 True)) = Normal \<and>
   status (processResponse 5 ''http://a.test/'' (response_of 302 True)) = Redirect"
proof -
  have h1: "\<not> redirected (response_of 404 False) \<and>
      (resp_status (response_of 404 False) = 404 \<or> resp_status (response_of 404 False) = 410)"
    by (simp add: response_of_def)
  have h2: "\<not> redirected (response_of 403 False) \<and>
      (resp_status (response_of 403 False) = 401 \<or> resp_status (response_of 403 False) = 403 \<or>
       resp_status (response_of 403 False) = 429)"
    by (simp add: response_of_def)
  have h3: "\<not> redirected (response_of 418 False) \<and> 400 \<le> resp_status (response_of 418 False) \<and>
      resp_status (response_of 418 False) < 500 \<and> resp_status (response_of 418 False) \<noteq> 404 \<and>
      resp_status (response_of 418 False) \<noteq> 410"
    by (simp add: response_of_def)
  have h4: "\<not> redirected (response_of 503 False) \<and> 500 \<le> resp_status (response_of 503 False)"
    by (simp add: response_of_def)
  have h5: "\<not> redirected (response_of 304 False) \<and> 300 \<le> resp_status (response_of 304 False) \<and>
      resp_status (response_of 304 False) < 400"
    by (simp add: response_of_def)
  have h6: "redirected (response_of 308 True) \<and>
      (resp_status (response_of 308 True) = 301 \<or> resp_status (response_of 308 True) = 308)"
    by (simp add: response_of_def)
  have h7: "redirected (response_of 302 True) \<and>
      (resp_status (response_of 302 True) = 302 \<or> resp_status (response_of 302 True) = 303 \<or>
       resp_status (response_of 302 True) = 307)"
    by (simp add: response_of_def)
  note b = processResponse_buckets [where now = 5 and u = "''http://a.test/''"]
  have c1: "status (processResponse 5 ''http://a.test/'' (response_of 404 False)) = Broken"
    using b [of "response_of 404 False"] h1 by blast
  have c2: "status (processResponse 5 ''http://a.test/'' (response_of 403 False)) = Error"
    using b [of "response_of 403 False"] h2 by blast
  have c3: "status (processResponse 5 ''http://a.test/'' (response_of 418 False)) = Error"
    using b [of "response_of 418 False"] h3 by blast
  have c4: "status (processResponse 5 ''http://a.test/'' (response_of 503 False)) = Error"
    using b [of "response_of 503 False"] h4 by blast
  have c5: "status (processResponse 5 ''http://a.test/'' (response_of 304 False)) = Redirect"
    using b [of "response_of 304 False"] h5 by blast
  have c6: "status (processResponse 5 ''http://a.test/'' (response_of 308 True)) = Normal"
    using b [of "response_of 308 True"] h6 by blast
  have c7: "status (processResponse 5 ''http://a.test/'' (response_of 302 True)) = Redirect"
    using b [of "response_of 302 True"] h7 by blast
  from c1 c2 c3 c4 c5 c6 c7 show ?thesis by simp
qed

text \<open>
  What the amended claim leaves open: a redirected response whose final status is not
  a redirect status takes the same branch, so a redirect chain that ends in 404 is
  reported as \<open>redirect\<close>.
\<close>

lemma processResponse_redirected_404:
  "status (processResponse 0 ''http://a.test/'' (response_of 404 True)) = Redirect"
  by (simp add: processResponse_def response_of_def ok_def)

subsection \<open>URL similarity\<close>

text \<open>
  Claim C4 asks for \<open>calculateUrlSimilarity a b = calculateUrlSimilarity b a\<close>. The
  intersection is the first token list filtered by membership in the second, so a
  token repeated in the first argument is counted as often as it is repeated there,
  while the union is a set. Two bookmark URLs on which the two orders differ:
\<close>

theorem calculateUrlSimilarity_order_matters:
  "calculateUrlSimilarity ascii_platform ''http://x.test/aaa/aaa/bbb'' ''http://x.test/aaa/ccc'' = 4 / 5 \<and>
   calculateUrlSimilarity ascii_platform ''http://x.test/aaa/ccc'' ''http://x.test/aaa/aaa/bbb'' = 3 / 5"
  by code_simp

text \<open>The parts of the bound that hold: an exact group has similarity 1, and the
  quotient is never negative.\<close>

lemma exactDuplicates_similarity:
  "d \<in> set (exactDuplicates m) \<Longrightarrow> similarity d = 1"
  by (auto simp: exactDuplicates_def)

lemma calculateUrlSimilarity_nonneg: "0 \<le> calculateUrlSimilarity P a b"
  by (simp add: calculateUrlSimilarity_def Let_def)

text \<open>
  Claim C5 asks for every similarity reported by \<open>findDuplicates\<close> to lie between 0
  and 1. For the same reason as above the quotient can exceed 1: with the similar-match
  option, two bookmarks whose URLs differ only in a repeated path segment are reported
  as one group with similarity 2.
\<close>

theorem findDuplicates_similarity_two:
  "findDuplicates ascii_platform similar_pair \<lparr> exactMatch = True, similarMatch = True \<rparr> =
     [\<lparr> dup_url = ''http://x.test/aaa/aaa/aaa/aaa'', dup_bookmarks = similar_pair,
        similarity = 2 \<rparr>]"
  by code_simp

subsection \<open>Removing duplicates\<close>

lemma processNode_urls:
  "processNode st parent x = (r, st') \<Longrightarrow>
     seenUrls st \<subseteq> seenUrls st' \<and> distinct (leaf_urls_list (opt_list r)) \<and>
     set (leaf_urls_list (opt_list r)) \<subseteq> seenUrls st' - seenUrls st"
  "processList st parent xs = (rs, st') \<Longrightarrow>
     seenUrls st \<subseteq> seenUrls st' \<and> distinct (leaf_urls_list rs) \<and>
     set (leaf_urls_list rs) \<subseteq> seenUrls st' - seenUrls st"
proof (induction st parent x and st parent xs arbitrary: r st' and rs st'
    rule: processNode_processList.induct)
  case (1 st parent i t u cs p s)
  show ?case
  proof (cases "truthy u")
    case True
    with "1.prems" show ?thesis
      by (auto simp: Let_def split: if_splits)
  next
    case False
    show ?thesis
    proof (cases cs)
      case None
      with False "1.prems" show ?thesis by auto
    next
      case (Some xs)
      show ?thesis
      proof (cases "xs = []")
        case True
        with False Some "1.prems" show ?thesis by auto
      next
        case ne: False
        obtain cl st1 where pl: "processList st (Some i) xs = (cl, st1)"
          by (cases "processList st (Some i) xs")
        from "1.IH"[OF False Some ne pl] False Some ne pl "1.prems"
        show ?thesis by auto
      qed
    qed
  qed
next
  case (2 st parent)
  then show ?case by auto
next
  case (3 st parent x xs)
  obtain r1 st1 where pn: "processNode st parent x = (r1, st1)"
    by (cases "processNode st parent x")
  obtain rs2 st2 where pl: "processList st1 parent xs = (rs2, st2)"
    by (cases "processList st1 parent xs")
  note a = "3.IH"(1)[OF pn]
  note b = "3.IH"(2)[OF pn[symmetric] pl]
  from "3.prems" pn pl have rs: "rs = opt_list r1 @ rs2" and st': "st' = st2"
    by (cases r1; simp)+
  have app: "leaf_urls_list (opt_list r1 @ rs2) = leaf_urls_list (opt_list r1) @ leaf_urls_list rs2"
    by (cases r1) auto
  from a b show ?case unfolding rs st' app by auto
qed

lemma processNode_skeleton:
  "processNode st parent x = (r, st') \<Longrightarrow>
     folder_skeleton_list (opt_list r) = folder_skeleton x"
  "processList st parent xs = (rs, st') \<Longrightarrow>
     folder_skeleton_list rs = folder_skeleton_list xs"
proof (induction st parent x and st parent xs arbitrary: r st' and rs st'
    rule: processNode_processList.induct)
  case (1 st parent i t u cs p s)
  show ?case
  proof (cases "truthy u")
    case True
    with "1.prems" show ?thesis
      by (auto simp: Let_def split: if_splits)
  next
    case False
    show ?thesis
    proof (cases cs)
      case None
      with False "1.prems" show ?thesis by auto
    next
      case (Some xs)
      show ?thesis
      proof (cases "xs = []")
        case True
        with False Some "1.prems" show ?thesis by auto
      next
        case ne: False
        obtain cl st1 where pl: "processList st (Some i) xs = (cl, st1)"
          by (cases "processList st (Some i) xs")
        from "1.IH"[OF False Some ne pl] False Some ne pl "1.prems"
        show ?thesis by auto
      qed
    qed
  qed
next
  case (2 st parent)
  then show ?case by auto
next
  case (3 st parent x xs)
  obtain r1 st1 where pn: "processNode st parent x = (r1, st1)"
    by (cases "processNode st parent x")
  obtain rs2 st2 where pl: "processList st1 parent xs = (rs2, st2)"
    by (cases "processList st1 parent xs")
  note a = "3.IH"(1)[OF pn]
  note b = "3.IH"(2)[OF pn[symmetric] pl]
  from "3.prems" pn pl have rs: "rs = opt_list r1 @ rs2"
    by (cases r1; simp)+
  have app: "folder_skeleton_list (opt_list r1 @ rs2) =
      folder_skeleton_list (opt_list r1) @ folder_skeleton_list rs2"
    by (cases r1) auto
  from a b show ?case unfolding rs app by simp
qed

text \<open>
  Claim C9. In the forest returned by \<open>removeDuplicates\<close> no URL occurs twice among
  the bookmark leaves, and the folders of the input are all there, each with its fields
  and at its place, also a folder whose bookmarks were all dropped.
\<close>

theorem removeDuplicates_distinct_urls_keeps_folders:
  "distinct (leaf_urls_list (removeDuplicates bookmarks)) \<and>
   folder_skeleton_list (removeDuplicates bookmarks) = folder_skeleton_list bookmarks"
proof -
  obtain rs st' where pl:
    "processList \<lparr> seenUrls = {}, seenTitles = Map.empty \<rparr> None bookmarks = (rs, st')"
    by (cases "processList \<lparr> seenUrls = {}, seenTitles = Map.empty \<rparr> None bookmarks")
  from processNode_urls(2)[OF pl] processNode_skeleton(2)[OF pl] pl
  show ?thesis by (simp add: removeDuplicates_def)
qed

subsection \<open>JSON round trip\<close>

lemma keepNode_default:
  "selectedFolders options = None \<Longrightarrow> includeBroken options \<noteq> Some False \<Longrightarrow> keepNode options n"
  by (simp add: keepNode_def)

lemma filterTree_keep_all:
  "selectedFolders options = None \<Longrightarrow> includeBroken options \<noteq> Some False \<Longrightarrow>
     filterTree options ns = ns"
  "selectedFolders options = None \<Longrightarrow> includeBroken options \<noteq> Some False \<Longrightarrow>
     filterChildren options n = n"
proof (induction options ns and options n rule: filterTree_filterChildren.induct)
  case (1 options)
  then show ?case by simp
next
  case (2 options n ns)
  then show ?case by (simp add: keepNode_default)
next
  case (3 options i t u cs p s)
  then show ?case by (cases cs) auto
qed

lemma addIds_core:
  "node_id x \<noteq> [] \<Longrightarrow> list_all (\<lambda>n. node_id n \<noteq> []) (nodes_of x) \<Longrightarrow>
     core_of (fst (addIds draw k parent x)) = core_of x \<and> snd (addIds draw k parent x) = k"
  "list_all (\<lambda>n. node_id n \<noteq> []) (nodes_of_list xs) \<Longrightarrow>
     core_of_list (fst (addIdsMap draw k parent xs)) = core_of_list xs \<and>
     snd (addIdsMap draw k parent xs) = k"
proof (induction draw k parent x and draw k parent xs rule: addIds_addIdsMap.induct)
  case (1 draw k parent i t u cs p s)
  from "1.prems" have i: "i \<noteq> []" by simp
  then have g: "(i, k) = (if i \<noteq> [] then (i, k) else generateId draw k)" by simp
  show ?case
  proof (cases cs)
    case None
    with i show ?thesis by simp
  next
    case (Some xs)
    with "1.prems" have "list_all (\<lambda>n. node_id n \<noteq> []) (nodes_of_list xs)" by simp
    from "1.IH"[OF g Some this] i Some show ?thesis
      by (auto split: prod.splits)
  qed
next
  case (2 draw k parent)
  then show ?case by simp
next
  case (3 draw k parent x xs)
  from "3.prems" have x: "node_id x \<noteq> []" "list_all (\<lambda>n. node_id n \<noteq> []) (nodes_of x)"
    and xs: "list_all (\<lambda>n. node_id n \<noteq> []) (nodes_of_list xs)"
    by (cases x; simp)+
  obtain y k1 where a: "addIds draw k parent x = (y, k1)" by (cases "addIds draw k parent x")
  from "3.IH"(1)[OF x] a have y: "core_of y = core_of x" and k1: "k1 = k" by simp_all
  from "3.IH"(2)[OF a[symmetric] xs] y k1 a show ?case
    by (auto split: prod.splits)
qed

text \<open>
  Claim C3, as stated, fails: \<open>importFromJSON\<close> replaces an empty id by a generated
  one, so a node exported with the empty string as its id comes back under another id.
\<close>

theorem json_roundtrip_empty_id_counterexample:
  "importFromJSON ideal_parse demo_draw 0
     (exportToJSON ideal_stringify ''2026-01-01T00:00:00.000Z'' [unnamed_leaf] default_export_options) =
   Inr [BookmarkNode ''bk_1700000000000_k3x9q2m1z'' ''Example'' (Some ''http://a.test/'') None None None] \<and>
   node_id unnamed_leaf = []"
  by (simp add: importFromJSON_def exportToJSON_def ideal_parse_def ideal_stringify_def
      unnamed_leaf_def default_export_options_def keepNode_def generateId_def demo_draw_def)

text \<open>
  Claim C3, amended. For a tree whose nodes all have a non-empty id, exported with
  options that select no folders and do not exclude broken links (the default options
  among them), and a JSON codec that loses nothing: parsing the text of any exported
  object gives back the bookmark array of that object. Then \<open>importFromJSON\<close> of the
  text written by \<open>exportToJSON\<close> succeeds, and the imported forest has the id, title
  and URL of every node and the same children structure.
\<close>

theorem json_roundtrip:
  assumes "list_all (\<lambda>n. node_id n \<noteq> []) (nodes_of_list tree)"
    and "selectedFolders options = None" and "includeBroken options \<noteq> Some False"
    and "\<And>d. parse (stringify d) = Inr (BookmarkArray (data_bookmarks d))"
  shows "\<exists>imported. importFromJSON parse draw k (exportToJSON stringify isoNow tree options) =
           Inr imported \<and> core_of_list imported = core_of_list tree"
proof -
  have exported: "parse (exportToJSON stringify isoNow tree options) =
      Inr (BookmarkArray (filterTree options tree))"
    unfolding exportToJSON_def by (simp add: assms(4))
  have kept: "filterTree options tree = tree"
    using assms(2,3) by (rule filterTree_keep_all(1))
  from addIds_core(2)[OF assms(1), of draw k None]
  have "core_of_list (fst (addIdsMap draw k None tree)) = core_of_list tree" by simp
  with exported kept show ?thesis
    by (simp add: importFromJSON_def)
qed

theorem json_roundtrip_witness:
  "list_all (\<lambda>n. node_id n \<noteq> []) (nodes_of_list demo_forest) \<and>
   selectedFolders default_export_options = None \<and>
   includeBroken default_export_options \<noteq> Some False \<and>
   (\<forall>d. ideal_parse (ideal_stringify d) = Inr (BookmarkArray (data_bookmarks d))) \<and>
   (\<exists>imported. importFromJSON ideal_parse demo_draw 0
        (exportToJSON ideal_stringify ''2026-01-01T00:00:00.000Z'' demo_forest default_export_options) =
      Inr imported \<and> core_of_list imported = core_of_list demo_forest)"
proof -
  have h1: "list_all (\<lambda>n. node_id n \<noteq> []) (nodes_of_list demo_forest)"
    by (simp add: demo_forest_def demo_leaf_def)
  have h2: "selectedFolders default_export_options = None"
    by (simp add: default_export_options_def)
  have h3: "includeBroken default_export_options \<noteq> Some False"
    by (simp add: default_export_options_def)
  have h4: "ideal_parse (ideal_stringify d) = Inr (BookmarkArray (data_bookmarks d))" for d
    by (simp add: ideal_parse_def ideal_stringify_def)
  from json_roundtrip [where parse = ideal_parse and stringify = ideal_stringify
      and tree = demo_forest and options = default_export_options
      and isoNow = "''2026-01-01T00:00:00.000Z''" and draw = demo_draw and k = 0, OF h1 h2 h3 h4]
    h1 h2 h3 h4
  show ?thesis by blast
qed

subsection \<open>Checking one URL\<close>

lemma url_result_of: "url (result_of u st m t) = u"
  by (simp add: result_of_def)

lemma url_processResponse: "url (processResponse now u r) = u"
  by (simp add: processResponse_def Let_def)

lemma url_performCheckWithNoCors: "url (snd (performCheckWithNoCors strict u t0 g)) = u"
  by (cases g) (simp_all add: performCheckWithNoCors_def Let_def url_result_of)

lemma url_performCheck: "url (snd (performCheck strict u p)) = u"
  by (cases "head_request p")
     (simp_all add: performCheck_def Let_def url_result_of url_processResponse
        url_performCheckWithNoCors)

text \<open>A HEAD request that gets no answer is aborted by the timer of \<open>performCheck\<close>
  before the race ends, and the result has the status \<open>timeout\<close>.\<close>

lemma checkUrl_aborted_head_is_timeout:
  "checkUrl idle ''http://slow.test/''
     \<lparr> started = 0, head_request = Pending, get_request = Pending \<rparr> [] =
   Some (\<lparr> url = ''http://slow.test/'', status = Timeout, statusCode = None,
            redirectUrl = None, error = Some RequestTimedOut, checkTime = 4500 \<rparr>,
         idle, [])"
  by (simp add: checkUrl_def checkPause_def idle_def performCheck_def race_timeout_def
      CHECK_TIMEOUT_def result_of_def)

text \<open>
  Claim C6 asks for the status \<open>timeout\<close> whenever the check does not complete in
  time. When the timeout promise wins the race, \<open>checkUrl\<close> catches its rejection and
  returns the status \<open>error\<close> with the message "check timed out". This happens on the
  fallback path: the HEAD request fails after one second with a CORS failure, the
  no-cors GET request would be aborted only 4.5 seconds later, and the race ends after
  5 seconds.
\<close>

theorem checkUrl_race_timeout_is_error:
  "checkUrl idle ''http://slow.test/'' slow_fallback [] =
     Some (\<lparr> url = ''http://slow.test/'', status = Error, statusCode = None,
              redirectUrl = None, error = Some CheckTimedOut, checkTime = 5000 \<rparr>,
           idle, [])"
  by (simp add: checkUrl_def checkPause_def idle_def slow_fallback_def performCheck_def
      performCheckWithNoCors_def race_timeout_def CHECK_TIMEOUT_def result_of_def)

text \<open>
  Claim C10. When the checker is not paused, \<open>checkUrl\<close> returns a result for every
  input string, whatever the network does and whatever the user interface calls in the
  meantime, and the \<open>url\<close> field of the result is the input string. (The model has no
  outcome other than a result or a promise that stays pending: every rejection inside
  \<open>checkUrl\<close> ends in its \<open>catch\<close> block.)
\<close>

theorem checkUrl_resolves_with_url:
  assumes "\<not> isPaused st"
  shows "\<exists>r st' schedule'. checkUrl st u p schedule = Some (r, st', schedule') \<and> url r = u"
proof (cases "u = [] \<or> \<not> startsWith u ''http''")
  case True
  then show ?thesis by (auto simp: checkUrl_def url_result_of)
next
  case False
  obtain st3 schedule2 where ta:
    "timed_await (st\<lparr> currentCheckingUrl := Some u \<rparr>) schedule = (st3, schedule2)"
    by (cases "timed_await (st\<lparr> currentCheckingUrl := Some u \<rparr>) schedule")
  show ?thesis
  proof (cases "race_timeout (started p) (performCheck (strictMode st) u p)")
    case (Inl m)
    with False assms ta show ?thesis
      by (simp add: checkUrl_def checkPause_def Let_def url_result_of)
  next
    case (Inr r)
    then have "r = snd (performCheck (strictMode st) u p)"
      by (simp add: race_timeout_def split: if_splits)
    then have "url r = u" by (simp add: url_performCheck)
    with Inr False assms ta show ?thesis
      by (simp add: checkUrl_def checkPause_def Let_def)
  qed
qed

theorem checkUrl_resolves_with_url_witness:
  "\<not> isPaused idle \<and>
   (\<exists>r st' schedule'. checkUrl idle ''ftp://files.test/'' slow_fallback [[Pause]] =
      Some (r, st', schedule') \<and> url r = ''ftp://files.test/'') \<and>
   (\<exists>r st' schedule'. checkUrl idle ''http://slow.test/'' slow_fallback [[Pause]] =
      Some (r, st', schedule') \<and> url r = ''http://slow.test/'')"
proof -
  have h: "\<not> isPaused idle" by (simp add: idle_def)
  from checkUrl_resolves_with_url [OF h, of "''ftp://files.test/''" slow_fallback "[[Pause]]"]
    checkUrl_resolves_with_url [OF h, of "''http://slow.test/''" slow_fallback "[[Pause]]"] h
  show ?thesis by blast
qed

subsection \<open>Cancelling the loop\<close>

text \<open>A \<open>cancel()\<close> that arrives during the delay after the first URL is seen at the
  start of the next iteration, and the second URL is not checked.\<close>

lemma checkAllUrls_cancel_during_delay:
  "checkAllUrls idle two_links quick_ok [[], [Cancel]] =
     Some ([\<lparr> url = ''http://one.test/'', status = Normal, statusCode = None,
               redirectUrl = None, error = None, checkTime = 100 \<rparr>],
           idle, [])"
  by code_simp

text \<open>
  Claim C7 asks that no check begins once \<open>cancel()\<close> has been invoked. The loop tests
  the flag only before it waits on the pause promise. \<open>cancel()\<close> invokes the stored
  resolver, the loop wakes up and checks the URL of the current iteration: with the
  schedule above, the second URL is checked after the cancellation, and its result is
  returned.
\<close>

theorem checkAllUrls_checks_after_cancel:
  "checkAllUrls idle two_links quick_ok pause_then_cancel =
     Some ([\<lparr> url = ''http://one.test/'', status = Normal, statusCode = None,
               redirectUrl = None, error = None, checkTime = 100 \<rparr>,
            \<lparr> url = ''http://two.test/'', status = Normal, statusCode = None,
               redirectUrl = None, error = None, checkTime = 1100 \<rparr>],
           idle, [])"
  by code_simp

subsection \<open>The login guard of the sync operations\<close>

lemma getCurrentUser_after_upload:
  assumes "reads_back_user codec" and "getCurrentUser codec store = Some user"
  shows "getCurrentUser codec (snd (uploadBookmarks codec now1 now2 store bs)) \<noteq> None"
proof -
  let ?t = "stringify_user codec (user\<lparr> lastSyncTime := now2 \<rparr>)"
  from assms(1) obtain v where "?t \<noteq> []" "parse_user codec ?t = Some (Some v)"
    unfolding reads_back_user_def by blast
  with assms(2) show ?thesis
    by (simp add: uploadBookmarks_def getCurrentUser_def Let_def)
qed

text \<open>
  Claim C8. \<open>uploadBookmarks\<close>, \<open>downloadBookmarks\<close> and \<open>syncBookmarks\<close> fail with
  the "not logged in" error exactly when \<open>getCurrentUser\<close> finds no user in storage
  (for \<open>syncBookmarks\<close>, which reads the user again after the upload has stored it,
  given that the platform reads a stored user back), and when they fail with it the
  storage, the sync data included, is as before.
\<close>

theorem sync_operations_login_guard:
  "(fst (uploadBookmarks codec now1 now2 store bs) = Inl NotLoggedIn \<longleftrightarrow>
      getCurrentUser codec store = None) \<and>
   (fst (downloadBookmarks codec store) = Inl NotLoggedIn \<longleftrightarrow>
      getCurrentUser codec store = None) \<and>
   (reads_back_user codec \<longrightarrow>
      (fst (syncBookmarks codec now1 now2 store bs) = Inl NotLoggedIn \<longleftrightarrow>
         getCurrentUser codec store = None)) \<and>
   (getCurrentUser codec store = None \<longrightarrow>
      snd (uploadBookmarks codec now1 now2 store bs) = store \<and>
      snd (downloadBookmarks codec store) = store \<and>
      snd (syncBookmarks codec now1 now2 store bs) = store)"
proof (intro conjI impI)
  show "fst (uploadBookmarks codec now1 now2 store bs) = Inl NotLoggedIn \<longleftrightarrow>
      getCurrentUser codec store = None"
    by (simp add: uploadBookmarks_def Let_def split: option.splits)
  show "fst (downloadBookmarks codec store) = Inl NotLoggedIn \<longleftrightarrow>
      getCurrentUser codec store = None"
    by (simp add: downloadBookmarks_def split: option.splits)
next
  assume rb: "reads_back_user codec"
  show "fst (syncBookmarks codec now1 now2 store bs) = Inl NotLoggedIn \<longleftrightarrow>
         getCurrentUser codec store = None"
  proof (cases "getCurrentUser codec store")
    case None
    then show ?thesis by (simp add: syncBookmarks_def)
  next
    case (Some user)
    obtain store1 where up: "uploadBookmarks codec now1 now2 store bs = (Inr (), store1)"
      using Some by (simp add: uploadBookmarks_def Let_def)
    from getCurrentUser_after_upload[OF rb Some, of now1 now2 bs] up
    have "fst (downloadBookmarks codec store1) \<noteq> Inl NotLoggedIn"
      by (simp add: downloadBookmarks_def split: option.splits)
    with Some up show ?thesis
      by (simp add: syncBookmarks_def)
  qed
next
  assume "getCurrentUser codec store = None"
  then show "snd (uploadBookmarks codec now1 now2 store bs) = store"
    and "snd (downloadBookmarks codec store) = store"
    and "snd (syncBookmarks codec now1 now2 store bs) = store"
    by (simp_all add: uploadBookmarks_def downloadBookmarks_def syncBookmarks_def)
qed

theorem sync_operations_login_guard_witness:
  "reads_back_user demo_codec \<and>
   getCurrentUser demo_codec Map.empty = None \<and>
   getCurrentUser demo_codec logged_in_store \<noteq> None \<and>
   fst (syncBookmarks demo_codec 1 2 Map.empty two_links) = Inl NotLoggedIn \<and>
   snd (syncBookmarks demo_codec 1 2 Map.empty two_links) = Map.empty \<and>
   fst (uploadBookmarks demo_codec 1 2 logged_in_store two_links) \<noteq> Inl NotLoggedIn \<and>
   fst (downloadBookmarks demo_codec logged_in_store) \<noteq> Inl NotLoggedIn \<and>
   fst (syncBookmarks demo_codec 1 2 logged_in_store two_links) \<noteq> Inl NotLoggedIn"
proof -
  have rb: "reads_back_user demo_codec"
    by (simp add: reads_back_user_def demo_codec_def)
  have none: "getCurrentUser demo_codec Map.empty = None"
    by (simp add: getCurrentUser_def)
  have some: "getCurrentUser demo_codec logged_in_store \<noteq> None"
    by (simp add: getCurrentUser_def logged_in_store_def demo_codec_def)
  note a = sync_operations_login_guard [of demo_codec 1 2 Map.empty two_links]
  note b = sync_operations_login_guard [of demo_codec 1 2 logged_in_store two_links]
  have c1: "fst (syncBookmarks demo_codec 1 2 Map.empty two_links) = Inl NotLoggedIn"
    using a rb none by blast
  have c2: "snd (syncBookmarks demo_codec 1 2 Map.empty two_links) = Map.empty"
    using a none by blast
  have c3: "fst (uploadBookmarks demo_codec 1 2 logged_in_store two_links) \<noteq> Inl NotLoggedIn"
    using b some by blast
  have c4: "fst (downloadBookmarks demo_codec logged_in_store) \<noteq> Inl NotLoggedIn"
    using b some by blast
  have c5: "fst (syncBookmarks demo_codec 1 2 logged_in_store two_links) \<noteq> Inl NotLoggedIn"
    using b rb some by blast
  from rb none some c1 c2 c3 c4 c5 show ?thesis by simp
qed

end
